theory Spec2Isabelle
  imports Main
begin

section \<open>JavaScript values read and written by the proxy\<close>

text \<open>
  The values that travel through \<^verbatim>\<open>server.js\<close> are JSON values: the parsed query
  string \<^verbatim>\<open>req.query\<close> (strings, arrays and nested objects), the body axios parsed
  from the upstream answer (\<^verbatim>\<open>response.data\<close>) and the objects handed to
  \<^verbatim>\<open>res.json\<close>. Objects are association lists read with \<open>map_of\<close>; strings are
  byte lists (UTF-8); JSON numbers are integers here. A JavaScript value that may be
  \<^verbatim>\<open>undefined\<close> is a \<open>json option\<close>, with \<open>None\<close> for \<^verbatim>\<open>undefined\<close>.
\<close>

datatype json =
    JNull
  | JBool bool
  | JNum int
  | JStr string
  | JArr "json list"
  | JObj "(string \<times> json) list"

text \<open>Truthiness as JavaScript's \<^verbatim>\<open>ToBoolean\<close>: every array and object is truthy.\<close>

fun truthy :: "json \<Rightarrow> bool" where
  "truthy JNull = False"
| "truthy (JBool b) = b"
| "truthy (JNum n) = (n \<noteq> 0)"
| "truthy (JStr s) = (s \<noteq> [])"
| "truthy (JArr xs) = True"
| "truthy (JObj kvs) = True"

text \<open>The operator \<^verbatim>\<open>!v\<close> on a value that may be undefined.\<close>

fun falsy :: "json option \<Rightarrow> bool" where
  "falsy None = True"
| "falsy (Some v) = (\<not> truthy v)"

text \<open>
  An object literal whose property values may be undefined, as \<^verbatim>\<open>JSON.stringify\<close>
  (and axios, for \<^verbatim>\<open>params\<close>) see it: a property whose value is undefined is left out.
\<close>

fun props :: "(string \<times> json option) list \<Rightarrow> (string \<times> json) list" where
  "props [] = []"
| "props ((k, None) # kvs) = props kvs"
| "props ((k, Some v) # kvs) = (k, v) # props kvs"

definition obj :: "(string \<times> json option) list \<Rightarrow> json" where
  "obj kvs = JObj (props kvs)"

text \<open>A destructuring default \<^verbatim>\<open>{ k = d } = o\<close>: the default stands in for undefined only.\<close>

fun default_to :: "json option \<Rightarrow> json \<Rightarrow> json option" where
  "default_to None d = Some d"
| "default_to (Some v) d = Some v"

text \<open>The expression \<^verbatim>\<open>v || d\<close>.\<close>

fun js_or :: "json option \<Rightarrow> json \<Rightarrow> json option" where
  "js_or None d = Some d"
| "js_or (Some v) d = (if truthy v then Some v else Some d)"

text \<open>Reading a property of a built object, to look inside the bodies sent.\<close>

fun field :: "string \<Rightarrow> json \<Rightarrow> json option" where
  "field k (JObj kvs) = map_of kvs k"
| "field k JNull = None"
| "field k (JBool b) = None"
| "field k (JNum n) = None"
| "field k (JStr s) = None"
| "field k (JArr xs) = None"

section \<open>The upstream call\<close>

text \<open>
  What \<^verbatim>\<open>axios.get(apiUrl, config)\<close> is given and what its promise settles to. The
  promise resolves with a response, or rejects with an error whose \<^verbatim>\<open>response\<close>
  property is set exactly when the upstream answered.
\<close>

record axios_config =
  url :: string
  params :: json
  timeout :: nat
  request_headers :: "(string \<times> string) list"

record upstream_response =
  status :: nat
  statusText :: string
  headers :: json
  data :: json

text \<open>A thrown value: the \<^verbatim>\<open>message\<close> and \<^verbatim>\<open>response\<close> properties the catch block reads.\<close>

record js_error =
  message :: string
  response :: "upstream_response option"

datatype outcome = Resolved upstream_response | Rejected js_error

text \<open>
  Reading a property of the upstream body, for a name that is neither an index nor
  defined on a prototype (\<^verbatim>\<open>count\<close> and \<^verbatim>\<open>items\<close>): reading it from \<^verbatim>\<open>null\<close>
  throws a TypeError, which has no \<^verbatim>\<open>response\<close> property; every other value answers,
  with undefined unless it is an object holding the key.
\<close>

definition null_read :: "string \<Rightarrow> js_error" where
  "null_read k =
     \<lparr>message = ''Cannot read properties of null (reading '' @ [CHR 0x27] @ k @ [CHR 0x27] @ '')'',
      response = None\<rparr>"

fun get_member :: "json \<Rightarrow> string \<Rightarrow> js_error + json option" where
  "get_member JNull k = Inl (null_read k)"
| "get_member (JObj kvs) k = Inr (map_of kvs k)"
| "get_member (JBool b) k = Inr None"
| "get_member (JNum n) k = Inr None"
| "get_member (JStr s) k = Inr None"
| "get_member (JArr xs) k = Inr None"

text \<open>
  The length of a JavaScript string is its number of UTF-16 code units. Of a string held
  as UTF-8 bytes that is one for every byte that starts a character (every byte but the
  continuation bytes, 128 to 191), and one more for every character of four bytes (first
  byte 240 or more), which UTF-16 writes as a pair.
\<close>

definition utf16_units :: "string \<Rightarrow> nat" where
  "utf16_units s =
     length (filter (\<lambda>c. \<not> (128 \<le> (of_char c :: nat) \<and> (of_char c :: nat) < 192)) s) +
     length (filter (\<lambda>c. 240 \<le> (of_char c :: nat)) s)"

text \<open>
  The property \<^verbatim>\<open>length\<close> of a truthy value (so never of \<^verbatim>\<open>null\<close>): the number
  of elements of an array, the length of a string, an object's own property of that
  name, undefined otherwise.
\<close>

fun get_length :: "json \<Rightarrow> json option" where
  "get_length (JArr xs) = Some (JNum (int (length xs)))"
| "get_length (JStr s) = Some (JNum (int (utf16_units s)))"
| "get_length (JObj kvs) = map_of kvs ''length''"
| "get_length JNull = None"
| "get_length (JBool b) = None"
| "get_length (JNum n) = None"

section \<open>The handler of GET /djen\<close>

text \<open>
  What a run of the handler does to the outside: the calls of \<^verbatim>\<open>axios.get\<close> and the
  responses sent (the arguments of \<^verbatim>\<open>res.status\<close>, 200 when it is not called, and of
  \<^verbatim>\<open>res.json\<close>), in order.
\<close>

datatype event = AxiosGet axios_config | Respond nat json

fun is_upstream :: "event \<Rightarrow> bool" where
  "is_upstream (AxiosGet c) = True"
| "is_upstream (Respond s b) = False"

fun is_response :: "event \<Rightarrow> bool" where
  "is_response (AxiosGet c) = False"
| "is_response (Respond s b) = True"

type_synonym query = "(string \<times> json) list"

definition apiUrl :: string where
  "apiUrl = ''https://comunicaapi.pje.jus.br/api/v1/comunicacao''"

text \<open>Lines 48 to 54 and 67 to 73: the destructured query and the \<^verbatim>\<open>params\<close> object.\<close>

definition djen_params :: "query \<Rightarrow> json" where
  "djen_params q =
     obj [(''nomeAdvogado'', default_to (map_of q ''nomeAdvogado'') (JStr ''Eduardo Koetz'')),
          (''dataDisponibilizacaoInicio'', map_of q ''dataDisponibilizacaoInicio''),
          (''dataDisponibilizacaoFim'', map_of q ''dataDisponibilizacaoFim''),
          (''itensPorPagina'', default_to (map_of q ''itensPorPagina'') (JStr ''100'')),
          (''meio'', default_to (map_of q ''meio'') (JStr ''D''))]"

text \<open>Lines 79 to 87: the configuration of the one \<^verbatim>\<open>axios.get\<close>.\<close>

definition djen_config :: "query \<Rightarrow> axios_config" where
  "djen_config q =
     \<lparr>url = apiUrl,
      params = djen_params q,
      timeout = 30000,
      request_headers =
        [(''Accept'', ''application/json''),
         (''User-Agent'', ''ADVBOX-Render-Proxy/1.0''),
         (''Accept-Language'', ''pt-BR,pt;q=0.9,en;q=0.8'')]\<rparr>"

text \<open>Lines 58 to 62: the body of the 400 answer (the message in UTF-8).\<close>

definition missing_params_message :: string where
  "missing_params_message =
     ''Par'' @ [CHR 0xC3, CHR 0xA2] @ ''metros obrigat'' @ [CHR 0xC3, CHR 0xB3] @
     ''rios: dataDisponibilizacaoInicio, dataDisponibilizacaoFim''"

definition missing_params_body :: "query \<Rightarrow> json" where
  "missing_params_body q =
     obj [(''success'', Some (JBool False)),
          (''error'', Some (JStr missing_params_message)),
          (''received_params'', Some (JObj q))]"

text \<open>
  Lines 89 to 108: \<^verbatim>\<open>response.data.count\<close> is read first for the log line, then the
  envelope is built; \<open>now\<close> is \<^verbatim>\<open>new Date().toISOString()\<close>.
\<close>

definition resultado :: "string \<Rightarrow> query \<Rightarrow> upstream_response \<Rightarrow> js_error + json" where
  "resultado now q r =
     (case get_member (data r) ''count'' of
        Inl e \<Rightarrow> Inl e
      | Inr logged \<Rightarrow>
     (case get_member (data r) ''count'' of
        Inl e \<Rightarrow> Inl e
      | Inr count \<Rightarrow>
     (case get_member (data r) ''items'' of
        Inl e \<Rightarrow> Inl e
      | Inr items \<Rightarrow>
          Inr (obj
            [(''success'', Some (JBool True)),
             (''timestamp'', Some (JStr now)),
             (''proxy_info'', Some (obj
                [(''service'', Some (JStr ''Render.com'')),
                 (''method'', Some (JStr ''axios_get'')),
                 (''status_code'', Some (JNum (int (status r)))),
                 (''server_location'', Some (JStr ''US/EU (Render)'')),
                 (''parametros_enviados'', Some (djen_params q))])),
             (''api_response'', Some (data r)),
             (''stats'', Some (obj
                [(''total_intimacoes'', js_or count (JNum 0)),
                 (''total_items'',
                    (case items of
                       None \<Rightarrow> Some (JNum 0)
                     | Some v \<Rightarrow> if truthy v then get_length v else Some (JNum 0)))]))]))))"

text \<open>
  Lines 44 to 110, the \<^verbatim>\<open>try\<close> block: the events it causes, and the value thrown if it
  does not run to its end. \<open>upstream\<close> is the network: what the promise of
  \<^verbatim>\<open>axios.get\<close> settles to for a configuration.
\<close>

definition try_block ::
  "string \<Rightarrow> query \<Rightarrow> (axios_config \<Rightarrow> outcome) \<Rightarrow> event list \<times> js_error option" where
  "try_block now q upstream =
     (if falsy (map_of q ''dataDisponibilizacaoInicio'') \<or> falsy (map_of q ''dataDisponibilizacaoFim'')
      then ([Respond 400 (missing_params_body q)], None)
      else
        (case upstream (djen_config q) of
           Rejected e \<Rightarrow> ([AxiosGet (djen_config q)], Some e)
         | Resolved r \<Rightarrow>
             (case resultado now q r of
                Inl e \<Rightarrow> ([AxiosGet (djen_config q)], Some e)
              | Inr body \<Rightarrow> ([AxiosGet (djen_config q), Respond 200 body], None))))"

text \<open>Lines 112 to 133, the \<^verbatim>\<open>catch\<close> block.\<close>

definition errorInfo :: "string \<Rightarrow> query \<Rightarrow> js_error \<Rightarrow> json" where
  "errorInfo now q error =
     obj [(''success'', Some (JBool False)),
          (''error'', Some (JStr (message error))),
          (''timestamp'', Some (JStr now)),
          (''debug_info'', Some (obj
             [(''service'', Some (JStr ''Render.com'')),
              (''axios_error'', Some
                 (case response error of
                    Some r \<Rightarrow>
                      obj [(''status'', Some (JNum (int (status r)))),
                           (''statusText'', Some (JStr (statusText r))),
                           (''headers'', Some (headers r))]
                  | None \<Rightarrow> JStr ''Network/timeout error'')),
              (''request_params'', Some (JObj q))]))]"

definition statusCode :: "js_error \<Rightarrow> nat" where
  "statusCode error = (case response error of Some r \<Rightarrow> status r | None \<Rightarrow> 500)"

definition catch_block :: "string \<Rightarrow> query \<Rightarrow> js_error \<Rightarrow> event list" where
  "catch_block now q error = [Respond (statusCode error) (errorInfo now q error)]"

definition djen_handler :: "string \<Rightarrow> query \<Rightarrow> (axios_config \<Rightarrow> outcome) \<Rightarrow> event list" where
  "djen_handler now q upstream =
     (case try_block now q upstream of
        (evs, None) \<Rightarrow> evs
      | (evs, Some e) \<Rightarrow> evs @ catch_block now q e)"

section \<open>The upstream call on a network\<close>

text \<open>
  What the upstream does with one request: nothing arrives for so many milliseconds and
  then its response does, or the connection fails after so many milliseconds with a
  message, or nothing ever comes back.
\<close>

datatype network = Answers nat upstream_response | Fails nat string | Silent

text \<open>A number as JavaScript prints it into a message.\<close>

function decimal :: "nat \<Rightarrow> string" where
  "decimal n =
     (if n < 10 then [''0123456789'' ! n]
      else decimal (n div 10) @ [''0123456789'' ! (n mod 10)])"
  by pat_completeness auto
termination
  by (relation "measure (\<lambda>n. n)") auto

declare decimal.simps [simp del]

text \<open>
  The contract of \<^verbatim>\<open>axios.get\<close>, as axios documents it, for the options the handler
  sets. With a timeout of \<open>t\<close> milliseconds, \<open>t\<close> not 0, a request on which nothing
  has arrived after \<open>t\<close> milliseconds is aborted: the promise rejects with the message
  \<^verbatim>\<open>timeout of <t>ms exceeded\<close> and no response. A timeout of 0 is no timeout, and
  then the promise of a request that is never answered never settles, which is \<open>None\<close>
  here. A response resolves the promise when its status is 2xx (the default
  \<^verbatim>\<open>validateStatus\<close>) and rejects it otherwise, with the response on the error; a
  failed connection rejects it with no response.
\<close>

definition timed_out :: "nat \<Rightarrow> nat \<Rightarrow> bool" where
  "timed_out t d = (0 < t \<and> t < d)"

definition timeout_error :: "nat \<Rightarrow> js_error" where
  "timeout_error t =
     \<lparr>message = ''timeout of '' @ decimal t @ ''ms exceeded'', response = None\<rparr>"

definition status_error :: "upstream_response \<Rightarrow> js_error" where
  "status_error r =
     \<lparr>message = ''Request failed with status code '' @ decimal (status r), response = Some r\<rparr>"

definition axios_get :: "(axios_config \<Rightarrow> network) \<Rightarrow> axios_config \<Rightarrow> outcome option" where
  "axios_get net c =
     (case net c of
        Answers d r \<Rightarrow>
          if timed_out (timeout c) d then Some (Rejected (timeout_error (timeout c)))
          else if 200 \<le> status r \<and> status r < 300 then Some (Resolved r)
          else Some (Rejected (status_error r))
      | Fails d m \<Rightarrow>
          if timed_out (timeout c) d then Some (Rejected (timeout_error (timeout c)))
          else Some (Rejected \<lparr>message = m, response = None\<rparr>)
      | Silent \<Rightarrow>
          if timeout c = 0 then None else Some (Rejected (timeout_error (timeout c))))"

text \<open>An upstream from which nothing arrives within \<open>t\<close> milliseconds.\<close>

fun unresponsive :: "nat \<Rightarrow> network \<Rightarrow> bool" where
  "unresponsive t Silent = True"
| "unresponsive t (Answers d r) = (t < d)"
| "unresponsive t (Fails d m) = (t < d)"

text \<open>
  The handler on a promise that may never settle; \<open>None\<close> is a run that waits for ever
  at the \<^verbatim>\<open>await\<close> of line 79 and sends nothing. Up to the \<^verbatim>\<open>await\<close> it is lines
  44 to 63 of the handler; once the promise has settled the run is the handler's, with
  that outcome for its one call.
\<close>

definition djen_run ::
  "string \<Rightarrow> query \<Rightarrow> (axios_config \<Rightarrow> outcome option) \<Rightarrow> event list option" where
  "djen_run now q promise =
     (if falsy (map_of q ''dataDisponibilizacaoInicio'') \<or> falsy (map_of q ''dataDisponibilizacaoFim'')
      then Some [Respond 400 (missing_params_body q)]
      else
        (case promise (djen_config q) of
           None \<Rightarrow> None
         | Some out \<Rightarrow> Some (djen_handler now q (\<lambda>c. out))))"

section \<open>The storage schema\<close>

text \<open>
  \<^verbatim>\<open>create_tables.sql\<close> and \<^verbatim>\<open>SETUP_SUPABASE.md\<close> declare the tables of the notices.
  A table declaration is a list of columns, each with its type and its column
  constraints, written as the DDL writes them. A stored row gives every column a value,
  which may be \<open>Null\<close>; strings count characters.
\<close>

datatype sql_type = UUID | VARCHAR nat | TEXT | DATE | TIMESTAMP | TIMESTAMPTZ | JSONB

datatype sql_value =
    Null
  | Uuid string
  | Text string
  | Date int
  | Timestamp int
  | Jsonb json

datatype default_expr = gen_random_uuid | NOW | Literal sql_value

datatype column_constraint = DEFAULT default_expr | PRIMARY_KEY | UNIQUE | NOT_NULL

datatype column = Column string sql_type "column_constraint list"

fun col_name :: "column \<Rightarrow> string" where
  "col_name (Column n ty cs) = n"

fun col_type :: "column \<Rightarrow> sql_type" where
  "col_type (Column n ty cs) = ty"

text \<open>A primary key is both unique and not null.\<close>

fun is_not_null :: "column \<Rightarrow> bool" where
  "is_not_null (Column n ty cs) = (NOT_NULL \<in> set cs \<or> PRIMARY_KEY \<in> set cs)"

fun is_unique :: "column \<Rightarrow> bool" where
  "is_unique (Column n ty cs) = (UNIQUE \<in> set cs \<or> PRIMARY_KEY \<in> set cs)"

fun default_of :: "column_constraint list \<Rightarrow> default_expr option" where
  "default_of [] = None"
| "default_of (DEFAULT d # cs) = Some d"
| "default_of (PRIMARY_KEY # cs) = default_of cs"
| "default_of (UNIQUE # cs) = default_of cs"
| "default_of (NOT_NULL # cs) = default_of cs"

fun col_default :: "column \<Rightarrow> default_expr option" where
  "col_default (Column n ty cs) = default_of cs"

text \<open>\<^verbatim>\<open>create_tables.sql\<close>, lines 5 to 19.\<close>

definition intimacoes_eduardo_koetz :: "column list" where
  "intimacoes_eduardo_koetz =
     [Column ''id'' UUID [DEFAULT gen_random_uuid, PRIMARY_KEY],
      Column ''id_intimacao'' (VARCHAR 255) [UNIQUE, NOT_NULL],
      Column ''numero_processo'' (VARCHAR 50) [],
      Column ''tribunal'' (VARCHAR 100) [],
      Column ''orgao_julgador'' (VARCHAR 255) [],
      Column ''data_publicacao'' DATE [],
      Column ''tipo_comunicacao'' (VARCHAR 100) [],
      Column ''data_extracao'' TIMESTAMP [DEFAULT NOW],
      Column ''conteudo_texto'' TEXT [NOT_NULL],
      Column ''conteudo_original'' JSONB [],
      Column ''hash_conteudo'' (VARCHAR 255) [UNIQUE],
      Column ''metadados'' JSONB [],
      Column ''status_processamento'' (VARCHAR 50) [DEFAULT (Literal (Text ''extraido''))]]"

text \<open>
  \<^verbatim>\<open>SETUP_SUPABASE.md\<close>, lines 29 to 46. The table constraint
  \<^verbatim>\<open>CONSTRAINT unique_intimacao UNIQUE (id_intimacao)\<close> repeats the column's own
  \<^verbatim>\<open>UNIQUE\<close>.
\<close>

definition intimacoes_djen :: "column list" where
  "intimacoes_djen =
     [Column ''id'' UUID [DEFAULT gen_random_uuid, PRIMARY_KEY],
      Column ''id_intimacao'' TEXT [UNIQUE, NOT_NULL],
      Column ''numero_processo'' TEXT [],
      Column ''tribunal'' TEXT [],
      Column ''orgao_julgador'' TEXT [],
      Column ''data_publicacao'' DATE [],
      Column ''tipo_comunicacao'' TEXT [],
      Column ''conteudo_texto'' TEXT [NOT_NULL],
      Column ''data_extracao'' TIMESTAMPTZ [DEFAULT NOW],
      Column ''hash_conteudo'' TEXT [],
      Column ''metadados'' JSONB [],
      Column ''conteudo_original'' JSONB [],
      Column ''status_processamento'' TEXT [DEFAULT (Literal (Text ''extraido''))],
      Column ''tipo_documento'' TEXT []]"

subsection \<open>Inserting a row\<close>

text \<open>
  The database's side of an \<^verbatim>\<open>INSERT\<close>, as PostgreSQL runs it against such a
  declaration: a column the statement leaves out takes its default (or null), each value
  is assigned at the column's type, then the not-null and the unique constraints are
  checked, and a statement that fails leaves the table as it was. Of a statement with
  several defects the error named here may be another than the database names; the
  table is unchanged either way.
\<close>

datatype sql_error =
    undefined_column string
  | duplicate_column string
  | datatype_mismatch string
  | string_data_right_truncation string
  | not_null_violation string
  | unique_violation string

text \<open>What \<^verbatim>\<open>gen_random_uuid()\<close> and \<^verbatim>\<open>NOW()\<close> return while the statement runs.\<close>

record session =
  random_uuid :: string
  transaction_time :: int

fun eval_default :: "session \<Rightarrow> default_expr option \<Rightarrow> sql_value" where
  "eval_default s None = Null"
| "eval_default s (Some gen_random_uuid) = Uuid (random_uuid s)"
| "eval_default s (Some NOW) = Timestamp (transaction_time s)"
| "eval_default s (Some (Literal v)) = v"

text \<open>
  Assignment to a column of a type. A string longer than a \<^verbatim>\<open>VARCHAR(n)\<close> is an
  error unless the excess is all spaces, which are cut off. A value is taken at the
  column's own type: the casts that PostgreSQL applies on assignment (a uuid into a text
  column, say) are not followed and are answered as a mismatch, so every row the
  database stores is one the model stores, for the statement that gives the value
  already at the column's type.
\<close>

fun assign :: "string \<Rightarrow> sql_type \<Rightarrow> sql_value \<Rightarrow> sql_error + sql_value" where
  "assign k ty Null = Inr Null"
| "assign k UUID (Uuid u) = Inr (Uuid u)"
| "assign k (VARCHAR n) (Text s) =
     (if length s \<le> n then Inr (Text s)
      else if list_all (\<lambda>c. c = CHR '' '') (drop n s) then Inr (Text (take n s))
      else Inl (string_data_right_truncation k))"
| "assign k TEXT (Text s) = Inr (Text s)"
| "assign k DATE (Date d) = Inr (Date d)"
| "assign k TIMESTAMP (Timestamp t) = Inr (Timestamp t)"
| "assign k TIMESTAMPTZ (Timestamp t) = Inr (Timestamp t)"
| "assign k JSONB (Jsonb j) = Inr (Jsonb j)"
| "assign k ty v = Inl (datatype_mismatch k)"

type_synonym row = "(string \<times> sql_value) list"

definition cell :: "row \<Rightarrow> string \<Rightarrow> sql_value" where
  "cell r k = (case map_of r k of Some v \<Rightarrow> v | None \<Rightarrow> Null)"

fun column_values :: "string \<Rightarrow> row list \<Rightarrow> sql_value list" where
  "column_values k [] = []"
| "column_values k (r # t) = cell r k # column_values k t"

definition column_value :: "session \<Rightarrow> row \<Rightarrow> column \<Rightarrow> sql_error + sql_value" where
  "column_value s vals c =
     (case assign (col_name c) (col_type c)
             (case map_of vals (col_name c) of
                Some v \<Rightarrow> v
              | None \<Rightarrow> eval_default s (col_default c)) of
        Inl e \<Rightarrow> Inl e
      | Inr v \<Rightarrow>
          if v = Null \<and> is_not_null c then Inl (not_null_violation (col_name c)) else Inr v)"

fun build_row :: "session \<Rightarrow> row \<Rightarrow> column list \<Rightarrow> sql_error + row" where
  "build_row s vals [] = Inr []"
| "build_row s vals (c # cs) =
     (case column_value s vals c of
        Inl e \<Rightarrow> Inl e
      | Inr v \<Rightarrow>
          (case build_row s vals cs of
             Inl e \<Rightarrow> Inl e
           | Inr r \<Rightarrow> Inr ((col_name c, v) # r)))"

text \<open>The first unique column whose new value is already stored; nulls never conflict.\<close>

fun unique_conflict :: "column list \<Rightarrow> row \<Rightarrow> row list \<Rightarrow> string option" where
  "unique_conflict [] r t = None"
| "unique_conflict (c # cs) r t =
     (if is_unique c \<and> cell r (col_name c) \<noteq> Null \<and>
         cell r (col_name c) \<in> set (column_values (col_name c) t)
      then Some (col_name c)
      else unique_conflict cs r t)"

fun unknown_column :: "column list \<Rightarrow> row \<Rightarrow> string option" where
  "unknown_column cols [] = None"
| "unknown_column cols ((k, v) # vals) =
     (if k \<in> set (map col_name cols) then unknown_column cols vals else Some k)"

fun repeated_column :: "row \<Rightarrow> string option" where
  "repeated_column [] = None"
| "repeated_column ((k, v) # vals) =
     (if k \<in> set (map fst vals) then Some k else repeated_column vals)"

definition insert_row ::
  "column list \<Rightarrow> session \<Rightarrow> row \<Rightarrow> row list \<Rightarrow> sql_error + row list" where
  "insert_row cols s vals t =
     (case unknown_column cols vals of
        Some k \<Rightarrow> Inl (undefined_column k)
      | None \<Rightarrow>
     (case repeated_column vals of
        Some k \<Rightarrow> Inl (duplicate_column k)
      | None \<Rightarrow>
     (case build_row s vals cols of
        Inl e \<Rightarrow> Inl e
      | Inr r \<Rightarrow>
          (case unique_conflict cols r t of
             Some k \<Rightarrow> Inl (unique_violation k)
           | None \<Rightarrow> Inr (t @ [r])))))"

text \<open>The states a table reaches by inserts: a sequence of statements run from a table.\<close>

fun run_inserts :: "column list \<Rightarrow> (session \<times> row) list \<Rightarrow> row list \<Rightarrow> row list" where
  "run_inserts cols [] t = t"
| "run_inserts cols ((s, vals) # stmts) t =
     (case insert_row cols s vals t of
        Inl e \<Rightarrow> run_inserts cols stmts t
      | Inr t' \<Rightarrow> run_inserts cols stmts t')"

fun is_text :: "sql_value \<Rightarrow> bool" where
  "is_text (Text s) = True"
| "is_text Null = False"
| "is_text (Uuid u) = False"
| "is_text (Date d) = False"
| "is_text (Timestamp t) = False"
| "is_text (Jsonb j) = False"

text \<open>No two rows share a value in column \<open>k\<close>, and no row has null there.\<close>

definition unique_not_null :: "string \<Rightarrow> row list \<Rightarrow> bool" where
  "unique_not_null k t = (distinct (column_values k t) \<and> Null \<notin> set (column_values k t))"

section \<open>Sample requests, upstream answers and statements\<close>

definition query_jan :: query where
  "query_jan =
     [(''dataDisponibilizacaoInicio'', JStr ''2024-01-01''),
      (''dataDisponibilizacaoFim'', JStr ''2024-01-31'')]"

definition query_no_end :: query where
  "query_no_end = [(''dataDisponibilizacaoInicio'', JStr ''2024-01-01''), (''meio'', JStr ''E'')]"

definition query_empty_end :: query where
  "query_empty_end =
     [(''dataDisponibilizacaoInicio'', JStr ''2024-01-01''),
      (''dataDisponibilizacaoFim'', JStr '''')]"

definition stamp :: string where
  "stamp = ''2024-02-01T09:00:00.000Z''"

definition forbidden :: upstream_response where
  "forbidden =
     \<lparr>status = 403, statusText = ''Forbidden'', headers = JObj [], data = JStr ''blocked''\<rparr>"

definition upstream_forbidden :: "axios_config \<Rightarrow> outcome" where
  "upstream_forbidden c =
     Rejected \<lparr>message = ''Request failed with status code 403'', response = Some forbidden\<rparr>"

definition upstream_timeout :: "axios_config \<Rightarrow> outcome" where
  "upstream_timeout c =
     Rejected \<lparr>message = ''timeout of 30000ms exceeded'', response = None\<rparr>"

text \<open>An upstream that answers with the given 2xx status and the JSON body \<^verbatim>\<open>null\<close>.\<close>

definition upstream_null :: "nat \<Rightarrow> axios_config \<Rightarrow> outcome" where
  "upstream_null st c =
     Resolved \<lparr>status = st, statusText = ''OK'', headers = JObj [], data = JNull\<rparr>"

definition upstream_one :: "axios_config \<Rightarrow> outcome" where
  "upstream_one c =
     Resolved \<lparr>status = 200, statusText = ''OK'', headers = JObj [],
       data = JObj [(''count'', JNum 1), (''items'', JArr [JObj [(''id'', JNum 7)]])]\<rparr>"

definition stmt_a :: "session \<times> row" where
  "stmt_a =
     (\<lparr>random_uuid = ''0a'', transaction_time = 1\<rparr>,
      [(''id_intimacao'', Text ''A-1''), (''conteudo_texto'', Text ''Intimacao'')])"

definition stmt_a_again :: "session \<times> row" where
  "stmt_a_again =
     (\<lparr>random_uuid = ''0b'', transaction_time = 2\<rparr>,
      [(''id_intimacao'', Text ''A-1''), (''conteudo_texto'', Text ''Outra'')])"

definition stmt_b :: "session \<times> row" where
  "stmt_b =
     (\<lparr>random_uuid = ''0c'', transaction_time = 3\<rparr>,
      [(''id_intimacao'', Text ''B-2''), (''conteudo_texto'', Text '''')])"

section \<open>Facts about the handler\<close>

lemma truthy_dates:
  assumes "\<not> falsy (map_of q ''dataDisponibilizacaoInicio'')"
    and "\<not> falsy (map_of q ''dataDisponibilizacaoFim'')"
  obtains i f where "map_of q ''dataDisponibilizacaoInicio'' = Some i"
    and "map_of q ''dataDisponibilizacaoFim'' = Some f"
  using assms
  by (cases "map_of q ''dataDisponibilizacaoInicio''"; cases "map_of q ''dataDisponibilizacaoFim''")
    auto

lemma js_or_Some: "\<exists>w. js_or v d = Some w"
  by (cases v) auto

lemma get_member_field: "body \<noteq> JNull \<Longrightarrow> get_member body k = Inr (field k body)"
  by (cases body) simp_all

text \<open>
  C1: a request of GET /djen in which \<^verbatim>\<open>dataDisponibilizacaoInicio\<close> or
  \<^verbatim>\<open>dataDisponibilizacaoFim\<close> is absent is answered with status 400 and the error body
  (success false, the message, the query received), and nothing else happens: no call
  of the upstream.
\<close>

theorem djen_missing_date_400:
  assumes "map_of q ''dataDisponibilizacaoInicio'' = None \<or>
           map_of q ''dataDisponibilizacaoFim'' = None"
  shows "djen_handler now q upstream =
           [Respond 400
              (JObj [(''success'', JBool False),
                     (''error'', JStr missing_params_message),
                     (''received_params'', JObj q)])]"
  using assms
  by (auto simp: djen_handler_def try_block_def missing_params_body_def obj_def)

theorem djen_missing_date_400_witness:
  "map_of query_no_end ''dataDisponibilizacaoFim'' = None \<and>
   djen_handler stamp query_no_end upstream_one =
     [Respond 400
        (JObj [(''success'', JBool False),
               (''error'', JStr missing_params_message),
               (''received_params'', JObj query_no_end)])]"
proof -
  have h: "map_of query_no_end ''dataDisponibilizacaoFim'' = None"
    by (simp add: query_no_end_def)
  then have "map_of query_no_end ''dataDisponibilizacaoInicio'' = None \<or>
             map_of query_no_end ''dataDisponibilizacaoFim'' = None"
    by simp
  from h djen_missing_date_400 [OF this] show ?thesis by simp
qed

text \<open>
  C3: when the upstream call of a request fails, the proxy answers once, with the status
  of the upstream's response if there was one and with 500 if there was none; the body
  names the cause (the error's message, and the upstream's status, status text and
  headers or the words for a network error) and repeats the query of the request.
\<close>

theorem djen_upstream_failure:
  assumes "\<not> falsy (map_of q ''dataDisponibilizacaoInicio'')"
    and "\<not> falsy (map_of q ''dataDisponibilizacaoFim'')"
    and "upstream (djen_config q) = Rejected e"
  shows "djen_handler now q upstream =
           [AxiosGet (djen_config q),
            Respond (case response e of Some r \<Rightarrow> status r | None \<Rightarrow> 500) (errorInfo now q e)]
         \<and> field ''success'' (errorInfo now q e) = Some (JBool False)
         \<and> field ''error'' (errorInfo now q e) = Some (JStr (message e))
         \<and> Option.bind (field ''debug_info'' (errorInfo now q e)) (field ''request_params'') =
             Some (JObj q)
         \<and> Option.bind (field ''debug_info'' (errorInfo now q e)) (field ''axios_error'') =
             Some (case response e of
                     Some r \<Rightarrow>
                       JObj [(''status'', JNum (int (status r))),
                             (''statusText'', JStr (statusText r)),
                             (''headers'', headers r)]
                   | None \<Rightarrow> JStr ''Network/timeout error'')"
  using assms
  by (simp add: djen_handler_def try_block_def catch_block_def statusCode_def errorInfo_def
      obj_def split: option.splits)

theorem djen_upstream_failure_witness:
  "djen_handler stamp query_jan upstream_forbidden =
     [AxiosGet (djen_config query_jan),
      Respond 403
        (errorInfo stamp query_jan
           \<lparr>message = ''Request failed with status code 403'', response = Some forbidden\<rparr>)]
   \<and> djen_handler stamp query_jan upstream_timeout =
     [AxiosGet (djen_config query_jan),
      Respond 500
        (errorInfo stamp query_jan
           \<lparr>message = ''timeout of 30000ms exceeded'', response = None\<rparr>)]"
proof -
  have i: "\<not> falsy (map_of query_jan ''dataDisponibilizacaoInicio'')"
    and f: "\<not> falsy (map_of query_jan ''dataDisponibilizacaoFim'')"
    by (simp_all add: query_jan_def)
  have a: "upstream_forbidden (djen_config query_jan) =
      Rejected \<lparr>message = ''Request failed with status code 403'', response = Some forbidden\<rparr>"
    by (simp add: upstream_forbidden_def)
  have b: "upstream_timeout (djen_config query_jan) =
      Rejected \<lparr>message = ''timeout of 30000ms exceeded'', response = None\<rparr>"
    by (simp add: upstream_timeout_def)
  from djen_upstream_failure [where upstream = upstream_forbidden and now = stamp, OF i f a]
    djen_upstream_failure [where upstream = upstream_timeout and now = stamp, OF i f b]
  show ?thesis by (simp add: forbidden_def)
qed

text \<open>
  What the handler does when the upstream call succeeds with a body other than
  \<^verbatim>\<open>null\<close>: it answers 200 with the envelope, which holds the upstream's body as it
  came, the upstream's status and the parameters sent; the two counters are 0 when the
  body has no \<^verbatim>\<open>count\<close> and no \<^verbatim>\<open>items\<close>.
\<close>

lemma djen_success_envelope:
  assumes "\<not> falsy (map_of q ''dataDisponibilizacaoInicio'')"
    and "\<not> falsy (map_of q ''dataDisponibilizacaoFim'')"
    and "upstream (djen_config q) = Resolved r"
    and "data r \<noteq> JNull"
  shows "\<exists>body. djen_handler now q upstream = [AxiosGet (djen_config q), Respond 200 body]
     \<and> field ''success'' body = Some (JBool True)
     \<and> field ''api_response'' body = Some (data r)
     \<and> Option.bind (field ''proxy_info'' body) (field ''status_code'') =
         Some (JNum (int (status r)))
     \<and> Option.bind (field ''proxy_info'' body) (field ''parametros_enviados'') =
         Some (djen_params q)"
  using assms(1-3) get_member_field [OF assms(4)]
  by (simp add: djen_handler_def try_block_def resultado_def obj_def)

lemma djen_success_stats:
  assumes "\<not> falsy (map_of q ''dataDisponibilizacaoInicio'')"
    and "\<not> falsy (map_of q ''dataDisponibilizacaoFim'')"
    and "upstream (djen_config q) = Resolved r"
    and "data r \<noteq> JNull"
  shows "\<exists>body. djen_handler now q upstream = [AxiosGet (djen_config q), Respond 200 body]
     \<and> (field ''count'' (data r) = None \<longrightarrow>
           Option.bind (field ''stats'' body) (field ''total_intimacoes'') = Some (JNum 0))
     \<and> (field ''items'' (data r) = None \<longrightarrow>
           Option.bind (field ''stats'' body) (field ''total_items'') = Some (JNum 0))"
proof -
  obtain w where "js_or (field ''count'' (data r)) (JNum 0) = Some w"
    using js_or_Some by blast
  then show ?thesis
    using assms(1-3) get_member_field [OF assms(4)]
    by (auto simp add: djen_handler_def try_block_def resultado_def obj_def split: option.splits)
qed

text \<open>
  C4, at the upstream that answers 200 with the JSON body \<^verbatim>\<open>null\<close>: the read of
  \<^verbatim>\<open>response.data.count\<close> throws, the catch block answers 500, and the body sent has
  no \<^verbatim>\<open>api_response\<close>: the upstream's body is not passed on.
\<close>

theorem djen_null_body_not_relayed:
  "djen_handler stamp query_jan (upstream_null 200) =
     [AxiosGet (djen_config query_jan),
      Respond 500 (errorInfo stamp query_jan (null_read ''count''))]
   \<and> field ''api_response'' (errorInfo stamp query_jan (null_read ''count'')) = None
   \<and> field ''success'' (errorInfo stamp query_jan (null_read ''count'')) = Some (JBool False)"
  by (simp add: djen_handler_def try_block_def catch_block_def statusCode_def resultado_def
      upstream_null_def query_jan_def null_read_def errorInfo_def obj_def)

text \<open>
  C5: when the handler calls the upstream (both dates are there), it calls the fixed
  address once, and the parameters sent are the query's own values for the two dates
  and for \<^verbatim>\<open>nomeAdvogado\<close>, \<^verbatim>\<open>itensPorPagina\<close> and \<^verbatim>\<open>meio\<close> where the query has
  them, and Eduardo Koetz, 100 and D where it does not.
\<close>

theorem djen_defaults:
  assumes "\<not> falsy (map_of q ''dataDisponibilizacaoInicio'')"
    and "\<not> falsy (map_of q ''dataDisponibilizacaoFim'')"
  shows "filter is_upstream (djen_handler now q upstream) = [AxiosGet (djen_config q)]
     \<and> url (djen_config q) = ''https://comunicaapi.pje.jus.br/api/v1/comunicacao''
     \<and> field ''nomeAdvogado'' (params (djen_config q)) =
          Some (case map_of q ''nomeAdvogado'' of None \<Rightarrow> JStr ''Eduardo Koetz'' | Some v \<Rightarrow> v)
     \<and> field ''itensPorPagina'' (params (djen_config q)) =
          Some (case map_of q ''itensPorPagina'' of None \<Rightarrow> JStr ''100'' | Some v \<Rightarrow> v)
     \<and> field ''meio'' (params (djen_config q)) =
          Some (case map_of q ''meio'' of None \<Rightarrow> JStr ''D'' | Some v \<Rightarrow> v)
     \<and> field ''dataDisponibilizacaoInicio'' (params (djen_config q)) =
          map_of q ''dataDisponibilizacaoInicio''
     \<and> field ''dataDisponibilizacaoFim'' (params (djen_config q)) =
          map_of q ''dataDisponibilizacaoFim''"
proof -
  from assms obtain i f where i: "map_of q ''dataDisponibilizacaoInicio'' = Some i"
    and f: "map_of q ''dataDisponibilizacaoFim'' = Some f"
    by (rule truthy_dates)
  have calls: "filter is_upstream (djen_handler now q upstream) = [AxiosGet (djen_config q)]"
    using assms
    by (simp add: djen_handler_def try_block_def catch_block_def split: outcome.splits sum.splits)
  have pars: "params (djen_config q) = JObj
     [(''nomeAdvogado'',
         case map_of q ''nomeAdvogado'' of None \<Rightarrow> JStr ''Eduardo Koetz'' | Some v \<Rightarrow> v),
      (''dataDisponibilizacaoInicio'', i),
      (''dataDisponibilizacaoFim'', f),
      (''itensPorPagina'', case map_of q ''itensPorPagina'' of None \<Rightarrow> JStr ''100'' | Some v \<Rightarrow> v),
      (''meio'', case map_of q ''meio'' of None \<Rightarrow> JStr ''D'' | Some v \<Rightarrow> v)]"
    by (simp add: djen_config_def djen_params_def obj_def i f split: option.splits)
  show ?thesis
    unfolding pars using calls by (simp add: djen_config_def apiUrl_def i f)
qed

theorem djen_defaults_witness:
  "filter is_upstream (djen_handler stamp query_jan upstream_one) =
     [AxiosGet (djen_config query_jan)]
   \<and> params (djen_config query_jan) =
       JObj [(''nomeAdvogado'', JStr ''Eduardo Koetz''),
             (''dataDisponibilizacaoInicio'', JStr ''2024-01-01''),
             (''dataDisponibilizacaoFim'', JStr ''2024-01-31''),
             (''itensPorPagina'', JStr ''100''),
             (''meio'', JStr ''D'')]
   \<and> field ''meio'' (params (djen_config query_jan)) = Some (JStr ''D'')"
proof -
  have i: "\<not> falsy (map_of query_jan ''dataDisponibilizacaoInicio'')"
    and f: "\<not> falsy (map_of query_jan ''dataDisponibilizacaoFim'')"
    by (simp_all add: query_jan_def)
  have p: "params (djen_config query_jan) =
       JObj [(''nomeAdvogado'', JStr ''Eduardo Koetz''),
             (''dataDisponibilizacaoInicio'', JStr ''2024-01-01''),
             (''dataDisponibilizacaoFim'', JStr ''2024-01-31''),
             (''itensPorPagina'', JStr ''100''),
             (''meio'', JStr ''D'')]"
    by (simp add: djen_config_def djen_params_def obj_def query_jan_def)
  from djen_defaults [OF i f, of stamp upstream_one] p show ?thesis
    by (simp add: query_jan_def)
qed

text \<open>
  C7: whatever the request and whatever the upstream does, a run of the handler calls
  the upstream at most once and sends exactly one response.
\<close>

theorem djen_single_attempt:
  "length (filter is_upstream (djen_handler now q upstream)) \<le> 1
   \<and> length (filter is_response (djen_handler now q upstream)) = 1"
  by (simp add: djen_handler_def try_block_def catch_block_def split: outcome.splits sum.splits)

theorem djen_single_attempt_witness:
  "length (filter is_upstream (djen_handler stamp query_jan upstream_timeout)) \<le> 1
   \<and> length (filter is_response (djen_handler stamp query_jan upstream_timeout)) = 1
   \<and> djen_handler stamp query_jan upstream_timeout =
       [AxiosGet (djen_config query_jan),
        Respond 500
          (errorInfo stamp query_jan
             \<lparr>message = ''timeout of 30000ms exceeded'', response = None\<rparr>)]"
  using djen_single_attempt [of stamp query_jan upstream_timeout]
  by (simp add: djen_handler_def try_block_def catch_block_def statusCode_def
      upstream_timeout_def query_jan_def)

lemma decimal_30000: "decimal 30000 = ''30000''"
  by (simp add: decimal.simps)

lemma djen_config_timeout: "timeout (djen_config q) = 30000"
  by (simp add: djen_config_def)

lemma handler_call_timeout:
  "AxiosGet c \<in> set (djen_handler now q upstream) \<Longrightarrow> timeout c = 30000"
  by (auto simp add: djen_handler_def try_block_def catch_block_def djen_config_def
      split: outcome.splits sum.splits if_splits)

lemma handler_one_response:
  "length (filter is_response (djen_handler now q upstream)) = 1"
  by (simp add: djen_handler_def try_block_def catch_block_def split: outcome.splits sum.splits)

text \<open>On a promise that always settles, the run is the handler's.\<close>

lemma djen_run_settled:
  "djen_run now q (\<lambda>c. Some (upstream c)) = Some (djen_handler now q upstream)"
  by (simp add: djen_run_def djen_handler_def try_block_def)

lemma axios_get_settles:
  "timeout c \<noteq> 0 \<Longrightarrow> \<exists>out. axios_get net c = Some out"
  by (simp add: axios_get_def split: network.splits)

text \<open>Without a timeout, the call to an upstream that never answers never settles.\<close>

lemma axios_get_no_timeout_blocks:
  "net c = Silent \<Longrightarrow> timeout c = 0 \<Longrightarrow> axios_get net c = None"
  by (simp add: axios_get_def)

lemma axios_get_unresponsive:
  "unresponsive (timeout c) (net c) \<Longrightarrow> timeout c \<noteq> 0 \<Longrightarrow>
   axios_get net c = Some (Rejected (timeout_error (timeout c)))"
  by (cases "net c") (simp_all add: axios_get_def timed_out_def)

text \<open>
  C8: every call of the upstream that the handler makes has a timeout of 30000 ms. So,
  whatever the upstream does, also when it never answers, the run of the handler ends
  and sends exactly one response; and when nothing arrives from the upstream within
  30000 ms the call fails and the request is answered as a failed one (status 500 with
  the message of the timeout), not left waiting.
\<close>

theorem djen_timeout_30s:
  "(AxiosGet c \<in> set (djen_handler now q upstream) \<longrightarrow> timeout c = 30000)
   \<and> (\<forall>evs c'. djen_run now q promise = Some evs \<and> AxiosGet c' \<in> set evs \<longrightarrow>
         timeout c' = 30000)
   \<and> (\<exists>evs. djen_run now q (axios_get net) = Some evs \<and> length (filter is_response evs) = 1)
   \<and> (\<not> falsy (map_of q ''dataDisponibilizacaoInicio'') \<and>
       \<not> falsy (map_of q ''dataDisponibilizacaoFim'') \<and>
       unresponsive 30000 (net (djen_config q)) \<longrightarrow>
         djen_run now q (axios_get net) =
           Some [AxiosGet (djen_config q),
                 Respond 500
                   (errorInfo now q
                      \<lparr>message = ''timeout of 30000ms exceeded'', response = None\<rparr>)])"
proof (intro conjI allI impI)
  assume "AxiosGet c \<in> set (djen_handler now q upstream)"
  then show "timeout c = 30000"
    by (rule handler_call_timeout)
next
  fix evs c'
  assume "djen_run now q promise = Some evs \<and> AxiosGet c' \<in> set evs"
  then show "timeout c' = 30000"
    by (auto simp: djen_run_def split: if_splits option.splits dest: handler_call_timeout)
next
  obtain out where "axios_get net (djen_config q) = Some out"
    using axios_get_settles [of "djen_config q" net] by (auto simp: djen_config_timeout)
  then show "\<exists>evs. djen_run now q (axios_get net) = Some evs \<and>
      length (filter is_response evs) = 1"
    by (simp add: djen_run_def handler_one_response)
next
  assume a: "\<not> falsy (map_of q ''dataDisponibilizacaoInicio'') \<and>
       \<not> falsy (map_of q ''dataDisponibilizacaoFim'') \<and>
       unresponsive 30000 (net (djen_config q))"
  then have "axios_get net (djen_config q) = Some (Rejected (timeout_error 30000))"
    using axios_get_unresponsive [of "djen_config q" net] by (simp add: djen_config_timeout)
  then show "djen_run now q (axios_get net) =
           Some [AxiosGet (djen_config q),
                 Respond 500
                   (errorInfo now q
                      \<lparr>message = ''timeout of 30000ms exceeded'', response = None\<rparr>)]"
    using a
    by (simp add: djen_run_def djen_handler_def try_block_def catch_block_def statusCode_def
        timeout_error_def decimal_30000)
qed

theorem djen_timeout_30s_witness:
  "AxiosGet (djen_config query_jan) \<in> set (djen_handler stamp query_jan upstream_one)
   \<and> timeout (djen_config query_jan) = 30000
   \<and> unresponsive 30000 Silent
   \<and> djen_run stamp query_jan (axios_get (\<lambda>c. Silent)) =
       Some [AxiosGet (djen_config query_jan),
             Respond 500
               (errorInfo stamp query_jan
                  \<lparr>message = ''timeout of 30000ms exceeded'', response = None\<rparr>)]"
proof -
  have i: "\<not> falsy (map_of query_jan ''dataDisponibilizacaoInicio'')"
    and f: "\<not> falsy (map_of query_jan ''dataDisponibilizacaoFim'')"
    by (simp_all add: query_jan_def)
  have h: "AxiosGet (djen_config query_jan) \<in> set (djen_handler stamp query_jan upstream_one)"
    by (simp add: djen_handler_def try_block_def resultado_def upstream_one_def query_jan_def)
  from djen_timeout_30s [of "djen_config query_jan" stamp query_jan upstream_one
      "\<lambda>c. None" "\<lambda>c. Silent"] i f h
  show ?thesis by simp
qed

text \<open>
  C9: a request in which \<^verbatim>\<open>dataDisponibilizacaoInicio\<close> or
  \<^verbatim>\<open>dataDisponibilizacaoFim\<close> is the empty string is answered as one that lacks it:
  status 400, the same error body with the query received, and no call of the upstream.
\<close>

theorem djen_empty_date_400:
  assumes "map_of q ''dataDisponibilizacaoInicio'' = Some (JStr '''') \<or>
           map_of q ''dataDisponibilizacaoFim'' = Some (JStr '''')"
  shows "djen_handler now q upstream =
           [Respond 400
              (JObj [(''success'', JBool False),
                     (''error'', JStr missing_params_message),
                     (''received_params'', JObj q)])]"
  using assms
  by (auto simp: djen_handler_def try_block_def missing_params_body_def obj_def)

theorem djen_empty_date_400_witness:
  "map_of query_empty_end ''dataDisponibilizacaoFim'' = Some (JStr '''') \<and>
   djen_handler stamp query_empty_end upstream_one =
     [Respond 400
        (JObj [(''success'', JBool False),
               (''error'', JStr missing_params_message),
               (''received_params'', JObj query_empty_end)])]"
proof -
  have h: "map_of query_empty_end ''dataDisponibilizacaoFim'' = Some (JStr '''')"
    by (simp add: query_empty_end_def)
  then have "map_of query_empty_end ''dataDisponibilizacaoInicio'' = Some (JStr '''') \<or>
             map_of query_empty_end ''dataDisponibilizacaoFim'' = Some (JStr '''')"
    by simp
  from h djen_empty_date_400 [OF this] show ?thesis by simp
qed

text \<open>
  C10, at the upstream that answers 201 with the JSON body \<^verbatim>\<open>null\<close> (a body with
  neither \<^verbatim>\<open>count\<close> nor \<^verbatim>\<open>items\<close>): the one response has status 500, not 200, it
  carries no \<^verbatim>\<open>stats\<close>, and it reports a network error.
\<close>

theorem djen_null_body_status_500:
  "filter is_response (djen_handler stamp query_jan (upstream_null 201)) =
     [Respond 500 (errorInfo stamp query_jan (null_read ''count''))]
   \<and> field ''stats'' (errorInfo stamp query_jan (null_read ''count'')) = None
   \<and> Option.bind (field ''debug_info'' (errorInfo stamp query_jan (null_read ''count'')))
        (field ''axios_error'') = Some (JStr ''Network/timeout error'')"
  by (simp add: djen_handler_def try_block_def catch_block_def statusCode_def resultado_def
      upstream_null_def query_jan_def null_read_def errorInfo_def obj_def)

section \<open>Facts about the storage schema\<close>

lemma build_row_cell:
  "build_row s vals cols = Inr r \<Longrightarrow> distinct (map col_name cols) \<Longrightarrow> c \<in> set cols \<Longrightarrow>
   column_value s vals c = Inr (cell r (col_name c))"
proof (induction cols arbitrary: r)
  case Nil
  then show ?case by simp
next
  case (Cons d cols)
  from Cons.prems(1) obtain v r' where v: "column_value s vals d = Inr v"
    and r': "build_row s vals cols = Inr r'" and r: "r = (col_name d, v) # r'"
    by (auto split: sum.splits)
  show ?case
  proof (cases "c = d")
    case True
    then show ?thesis using v r by (simp add: cell_def)
  next
    case False
    with Cons.prems(3) have c: "c \<in> set cols" by simp
    from Cons.prems(2) have "col_name d \<notin> col_name ` set cols" by simp
    with c have ne: "col_name c \<noteq> col_name d" by (metis imageI)
    from Cons.IH [OF r' _ c] Cons.prems(2)
    have "column_value s vals c = Inr (cell r' (col_name c))"
      by simp
    then show ?thesis using r ne by (simp add: cell_def)
  qed
qed

lemma column_value_not_null:
  "column_value s vals c = Inr v \<Longrightarrow> is_not_null c \<Longrightarrow> v \<noteq> Null"
  by (auto simp: column_value_def split: sum.splits if_splits)

lemma assign_TEXT: "assign k TEXT v = Inr w \<Longrightarrow> w = Null \<or> is_text w"
  by (cases v) auto

lemma column_value_text:
  "column_value s vals c = Inr v \<Longrightarrow> is_not_null c \<Longrightarrow> col_type c = TEXT \<Longrightarrow> is_text v"
  by (auto simp: column_value_def split: sum.splits if_splits dest: assign_TEXT)

lemma unique_conflict_None:
  "unique_conflict cols r t = None \<Longrightarrow> c \<in> set cols \<Longrightarrow> is_unique c \<Longrightarrow>
   cell r (col_name c) \<noteq> Null \<Longrightarrow> cell r (col_name c) \<notin> set (column_values (col_name c) t)"
  by (induction cols) (auto split: if_splits)

lemma column_values_snoc: "column_values k (t @ [r]) = column_values k t @ [cell r k]"
  by (induction t) simp_all

lemma insert_row_appends:
  assumes "insert_row cols s vals t = Inr t'"
  obtains r where "build_row s vals cols = Inr r" and "unique_conflict cols r t = None"
    and "t' = t @ [r]"
  using assms by (auto simp: insert_row_def split: option.splits sum.splits)

lemma insert_row_key:
  assumes "insert_row cols s vals t = Inr t'" and "distinct (map col_name cols)"
    and "c \<in> set cols" and "is_unique c" and "is_not_null c"
    and "unique_not_null (col_name c) t"
  shows "unique_not_null (col_name c) t'"
proof -
  from assms(1) obtain r where r: "build_row s vals cols = Inr r"
    and u: "unique_conflict cols r t = None" and t': "t' = t @ [r]"
    by (rule insert_row_appends)
  from build_row_cell [OF r assms(2,3)] assms(5) have nn: "cell r (col_name c) \<noteq> Null"
    by (rule column_value_not_null)
  from unique_conflict_None [OF u assms(3,4) nn] assms(6) nn show ?thesis
    by (auto simp: unique_not_null_def t' column_values_snoc)
qed

lemma run_inserts_key:
  assumes "distinct (map col_name cols)" and "c \<in> set cols"
    and "is_unique c" and "is_not_null c"
  shows "unique_not_null (col_name c) t \<Longrightarrow> unique_not_null (col_name c) (run_inserts cols stmts t)"
proof (induction stmts arbitrary: t)
  case Nil
  then show ?case by simp
next
  case (Cons st stmts)
  obtain s vals where st: "st = (s, vals)" by (cases st)
  show ?case
  proof (cases "insert_row cols s vals t")
    case (Inl e)
    then show ?thesis using Cons st by simp
  next
    case (Inr t')
    then have "unique_not_null (col_name c) t'"
      using insert_row_key assms Cons.prems by blast
    then show ?thesis using Cons.IH Inr st by simp
  qed
qed

lemma insert_row_text:
  assumes "insert_row cols s vals t = Inr t'" and "distinct (map col_name cols)"
    and "c \<in> set cols" and "is_not_null c" and "col_type c = TEXT"
    and "list_all is_text (column_values (col_name c) t)"
  shows "list_all is_text (column_values (col_name c) t')"
proof -
  from assms(1) obtain r where r: "build_row s vals cols = Inr r" and t': "t' = t @ [r]"
    by (rule insert_row_appends)
  from build_row_cell [OF r assms(2,3)] assms(4,5) have "is_text (cell r (col_name c))"
    by (rule column_value_text)
  then show ?thesis using assms(6) by (simp add: t' column_values_snoc)
qed

lemma run_inserts_text:
  assumes "distinct (map col_name cols)" and "c \<in> set cols"
    and "is_not_null c" and "col_type c = TEXT"
  shows "list_all is_text (column_values (col_name c) t) \<Longrightarrow>
         list_all is_text (column_values (col_name c) (run_inserts cols stmts t))"
proof (induction stmts arbitrary: t)
  case Nil
  then show ?case by simp
next
  case (Cons st stmts)
  obtain s vals where st: "st = (s, vals)" by (cases st)
  show ?case
  proof (cases "insert_row cols s vals t")
    case (Inl e)
    then show ?thesis using Cons st by simp
  next
    case (Inr t')
    then have "list_all is_text (column_values (col_name c) t')"
      using insert_row_text assms Cons.prems by blast
    then show ?thesis using Cons.IH Inr st by simp
  qed
qed

lemma intimacoes_eduardo_koetz_names: "distinct (map col_name intimacoes_eduardo_koetz)"
  by (simp add: intimacoes_eduardo_koetz_def)

lemma intimacoes_djen_names: "distinct (map col_name intimacoes_djen)"
  by (simp add: intimacoes_djen_def)

lemma run_sample_statements:
  "run_inserts intimacoes_eduardo_koetz [stmt_a, stmt_a_again, stmt_b] [] =
     [[(''id'', Uuid ''0a''), (''id_intimacao'', Text ''A-1''), (''numero_processo'', Null),
       (''tribunal'', Null), (''orgao_julgador'', Null), (''data_publicacao'', Null),
       (''tipo_comunicacao'', Null), (''data_extracao'', Timestamp 1),
       (''conteudo_texto'', Text ''Intimacao''), (''conteudo_original'', Null),
       (''hash_conteudo'', Null), (''metadados'', Null),
       (''status_processamento'', Text ''extraido'')],
      [(''id'', Uuid ''0c''), (''id_intimacao'', Text ''B-2''), (''numero_processo'', Null),
       (''tribunal'', Null), (''orgao_julgador'', Null), (''data_publicacao'', Null),
       (''tipo_comunicacao'', Null), (''data_extracao'', Timestamp 3),
       (''conteudo_texto'', Text ''''), (''conteudo_original'', Null),
       (''hash_conteudo'', Null), (''metadados'', Null),
       (''status_processamento'', Text ''extraido'')]]"
  by (simp add: stmt_a_def stmt_a_again_def stmt_b_def insert_row_def
      intimacoes_eduardo_koetz_def column_value_def cell_def)

text \<open>
  C2: in every state that the table of the notices reaches by inserts, under either
  declaration of the table, no two rows have the same \<^verbatim>\<open>id_intimacao\<close> (and no row
  has none).
\<close>

theorem id_intimacao_unique:
  "unique_not_null ''id_intimacao'' (run_inserts intimacoes_eduardo_koetz stmts [])
   \<and> unique_not_null ''id_intimacao'' (run_inserts intimacoes_djen stmts' [])"
proof
  let ?c = "Column ''id_intimacao'' (VARCHAR 255) [UNIQUE, NOT_NULL]"
  have "unique_not_null (col_name ?c) (run_inserts intimacoes_eduardo_koetz stmts [])"
    by (rule run_inserts_key [OF intimacoes_eduardo_koetz_names])
      (simp_all add: intimacoes_eduardo_koetz_def unique_not_null_def)
  then show "unique_not_null ''id_intimacao'' (run_inserts intimacoes_eduardo_koetz stmts [])"
    by simp
next
  let ?c = "Column ''id_intimacao'' TEXT [UNIQUE, NOT_NULL]"
  have "unique_not_null (col_name ?c) (run_inserts intimacoes_djen stmts' [])"
    by (rule run_inserts_key [OF intimacoes_djen_names])
      (simp_all add: intimacoes_djen_def unique_not_null_def)
  then show "unique_not_null ''id_intimacao'' (run_inserts intimacoes_djen stmts' [])"
    by simp
qed

theorem id_intimacao_unique_witness:
  "unique_not_null ''id_intimacao''
     (run_inserts intimacoes_eduardo_koetz [stmt_a, stmt_a_again, stmt_b] [])
   \<and> column_values ''id_intimacao''
       (run_inserts intimacoes_eduardo_koetz [stmt_a, stmt_a_again, stmt_b] []) =
     [Text ''A-1'', Text ''B-2'']"
  using id_intimacao_unique [of "[stmt_a, stmt_a_again, stmt_b]" "[]"]
  by (simp add: run_sample_statements cell_def)

text \<open>
  C6, as the schema has it: in every state that the table reaches by inserts, every row
  has a text in \<^verbatim>\<open>conteudo_texto\<close>, never null. The text may be empty.
\<close>

theorem conteudo_texto_not_null:
  "list_all is_text
     (column_values ''conteudo_texto'' (run_inserts intimacoes_eduardo_koetz stmts []))"
proof -
  let ?c = "Column ''conteudo_texto'' TEXT [NOT_NULL]"
  have "list_all is_text
     (column_values (col_name ?c) (run_inserts intimacoes_eduardo_koetz stmts []))"
    by (rule run_inserts_text [OF intimacoes_eduardo_koetz_names])
      (simp_all add: intimacoes_eduardo_koetz_def)
  then show ?thesis by simp
qed

theorem conteudo_texto_not_null_witness:
  "list_all is_text
     (column_values ''conteudo_texto''
        (run_inserts intimacoes_eduardo_koetz [stmt_a, stmt_a_again, stmt_b] []))
   \<and> length (run_inserts intimacoes_eduardo_koetz [stmt_a, stmt_a_again, stmt_b] []) = 2"
  using conteudo_texto_not_null [of "[stmt_a, stmt_a_again, stmt_b]"]
  by (simp add: run_sample_statements)

text \<open>
  C6 as stated fails: the table admits a row whose \<^verbatim>\<open>conteudo_texto\<close> is the empty
  string.
\<close>

theorem conteudo_texto_empty_admitted:
  "column_values ''conteudo_texto'' (run_inserts intimacoes_eduardo_koetz [stmt_b] []) =
     [Text '''']"
  by (simp add: stmt_b_def insert_row_def intimacoes_eduardo_koetz_def column_value_def cell_def)

end
